theory Spec2Isabelle
  imports Complex_Main "HOL-Library.Product_Lexorder" "HOL-Library.Multiset"
begin

section \<open>Data model of the dispatch core\<close>

text \<open>
  The rows of the Django models that driver dispatch reads and writes. The value of a
  \<open>DecimalField\<close> and a Python float are rational numbers here (every finite
  float is one), compared and negated exactly as Python does; the arithmetic that rounds is
  not computed here but taken from the record \<open>runtime\<close> below. A
  \<open>DateTimeField\<close> is a number of seconds. A nullable column is an \<open>option\<close>.
\<close>

type_synonym decimal = rat
type_synonym timestamp = rat

text \<open>\<open>Delivery.STATUS_CHOICES\<close> (delivery/models.py).\<close>

datatype delivery_status =
  Pending | Assigned | Accepted | Picked_up | En_route | Arrived | Delivered | Cancelled | Failed

text \<open>\<open>Order.STATUS_CHOICES\<close> (orders/models.py).\<close>

datatype order_status =
  Order_pending | Order_confirmed | Order_preparing | Order_ready | Order_out_for_delivery
  | Order_delivered | Order_cancelled

text \<open>\<open>User.USER_TYPES\<close> and the columns of \<open>User\<close> that dispatch reads (users/models.py).\<close>

datatype user_type = Customer | Vendor | Driver | Admin

record user =
  user_id :: nat
  user_type :: user_type
  is_verified_driver :: bool
  is_active :: bool

definition is_driver :: "user \<Rightarrow> bool" where
  "is_driver u = (user_type u = Driver)"

text \<open>
  \<open>DriverAvailability\<close>: one row per driver (\<open>OneToOneField\<close>); the row carries its
  driver, as \<open>select_related('driver')\<close> loads it.
\<close>

record driver_availability =
  driver :: user
  is_available :: bool
  is_online :: bool
  current_latitude :: "decimal option"
  current_longitude :: "decimal option"
  total_deliveries :: nat
  successful_deliveries :: nat
  cancelled_deliveries :: nat
  average_rating :: decimal

record restaurant =
  restaurant_id :: nat
  latitude :: "decimal option"
  longitude :: "decimal option"

text \<open>\<open>Order\<close>: the order carries its restaurant (a non-null foreign key).\<close>

record order_row =
  order_pk :: nat
  order_restaurant :: restaurant
  order_status :: order_status
  order_delivery_latitude :: "decimal option"
  order_delivery_longitude :: "decimal option"
  delivered_at :: "timestamp option"

text \<open>\<open>Delivery\<close>: \<open>order_id\<close> is the one-to-one key, \<open>driver_id\<close> the nullable driver.\<close>

record delivery =
  delivery_pk :: nat
  order_id :: nat
  driver_id :: "nat option"
  status :: delivery_status
  pickup_latitude :: "decimal option"
  pickup_longitude :: "decimal option"
  delivery_latitude :: "decimal option"
  delivery_longitude :: "decimal option"
  actual_delivery_time :: "timestamp option"
  distance_km :: "decimal option"
  driver_notes :: string
  assigned_at :: "timestamp option"
  accepted_at :: "timestamp option"

text \<open>
  What leaves the core through the notification helpers (websocket groups, e-mail
  threads) and through \<open>run_task_safe\<close>: each call appends one event.
\<close>

datatype event =
  Driver_new_delivery nat nat
  | Customer_order_status nat string
  | Vendor_order_update nat
  | Email_driver_new_delivery nat
  | Email_order_delivered nat
  | Task_dispatched string nat

text \<open>
  The database tables, in row order, and the events sent so far. The users that
  \<open>driver_id\<close> columns and requests name are taken to exist.
\<close>

record db =
  orders :: "order_row list"
  deliveries :: "delivery list"
  availabilities :: "driver_availability list"
  outbox :: "event list"

text \<open>
  The Python exceptions that the modelled code raises: \<open>TypeError\<close> from \<open>float(None)\<close>
  and from subtracting a null time, \<open>ValueError\<close> from \<open>math.sqrt\<close>, \<open>ImportError\<close> from
  importing a name that its module does not define, \<open>DatabaseError\<close> from
  \<open>save(update_fields=...)\<close> on an object whose row is gone, and \<open>DoesNotExist\<close> from
  following a foreign key to a row that is not there.
\<close>

datatype error = TypeError | ValueError | ImportError | DatabaseError | DoesNotExist

text \<open>
  What Python computes in floating point and in \<open>Decimal\<close> is not modelled but taken as a
  parameter of every function that depends on it:
  \<^item> \<open>haversine\<close>: the body of \<open>calculate_distance\<close> on four numbers, \<open>None\<close> where
    \<open>math.sqrt\<close> raises \<open>ValueError\<close> (rounding can make \<open>a\<close> exceed 1 for points that are
    nearly antipodal);
  \<^item> \<open>times_0_8\<close>: the float product \<open>radius_km * 0.8\<close>;
  \<^item> \<open>stored_distance\<close>: what the column \<open>DecimalField(max_digits=5, decimal_places=2)\<close>
    keeps of a float that is saved to it (rounded to two places);
  \<^item> \<open>str_of\<close>: the message \<open>str(e)\<close> of an exception.
\<close>

record runtime =
  haversine :: "decimal \<Rightarrow> decimal \<Rightarrow> decimal \<Rightarrow> decimal \<Rightarrow> decimal option"
  times_0_8 :: "decimal \<Rightarrow> decimal"
  stored_distance :: "decimal \<Rightarrow> decimal"
  str_of :: "error \<Rightarrow> string"

section \<open>Queries and writes\<close>

definition get_order :: "db \<Rightarrow> nat \<Rightarrow> order_row option" where
  "get_order s i = find (\<lambda>ord. order_pk ord = i) (orders s)"

definition get_delivery :: "db \<Rightarrow> nat \<Rightarrow> delivery option" where
  "get_delivery s i = find (\<lambda>d. delivery_pk d = i) (deliveries s)"

definition get_delivery_by_order :: "db \<Rightarrow> nat \<Rightarrow> delivery option" where
  "get_delivery_by_order s i = find (\<lambda>d. order_id d = i) (deliveries s)"

definition get_availability :: "db \<Rightarrow> nat \<Rightarrow> driver_availability option" where
  "get_availability s u = find (\<lambda>a. user_id (driver a) = u) (availabilities s)"

text \<open>\<open>obj.save()\<close> and \<open>obj.save(update_fields=...)\<close>: the row with the object's key is rewritten.\<close>

definition update_delivery :: "nat \<Rightarrow> (delivery \<Rightarrow> delivery) \<Rightarrow> db \<Rightarrow> db" where
  "update_delivery i f s =
     s\<lparr>deliveries := map (\<lambda>d. if delivery_pk d = i then f d else d) (deliveries s)\<rparr>"

definition save_delivery :: "delivery \<Rightarrow> db \<Rightarrow> db" where
  "save_delivery d s = update_delivery (delivery_pk d) (\<lambda>_. d) s"

definition update_availability :: "nat \<Rightarrow> (driver_availability \<Rightarrow> driver_availability) \<Rightarrow> db \<Rightarrow> db" where
  "update_availability u f s =
     s\<lparr>availabilities := map (\<lambda>a. if user_id (driver a) = u then f a else a) (availabilities s)\<rparr>"

definition update_order :: "nat \<Rightarrow> (order_row \<Rightarrow> order_row) \<Rightarrow> db \<Rightarrow> db" where
  "update_order i f s =
     s\<lparr>orders := map (\<lambda>ord. if order_pk ord = i then f ord else ord) (orders s)\<rparr>"

definition send :: "event \<Rightarrow> db \<Rightarrow> db" where
  "send e s = s\<lparr>outbox := outbox s @ [e]\<rparr>"

text \<open>The key of a row created by \<open>Delivery.objects.create\<close>: one past the largest key.\<close>

definition next_delivery_pk :: "db \<Rightarrow> nat" where
  "next_delivery_pk s = Suc (fold max (map delivery_pk (deliveries s)) 0)"

section \<open>DriverMatcher (delivery/assignment.py)\<close>

text \<open>Python truth of a nullable decimal: \<open>None\<close> and zero are false.\<close>

fun truthy :: "decimal option \<Rightarrow> bool" where
  "truthy None = False"
| "truthy (Some x) = (x \<noteq> 0)"

text \<open>
  \<open>calculate_distance\<close>: \<open>float(None)\<close> raises \<open>TypeError\<close> before anything is computed;
  on four numbers the formula gives the distance in kilometres or raises \<open>ValueError\<close>.
\<close>

definition calculate_distance ::
  "runtime \<Rightarrow> decimal option \<Rightarrow> decimal option \<Rightarrow> decimal option \<Rightarrow> decimal option
     \<Rightarrow> error + decimal"
where
  "calculate_distance rt lat1 lon1 lat2 lon2 =
     (case (lat1, lon1, lat2, lon2) of
        (Some a, Some b, Some c, Some d) \<Rightarrow>
          (case haversine rt a b c d of
             None \<Rightarrow> Inl ValueError
           | Some distance \<Rightarrow> Inr distance)
      | _ \<Rightarrow> Inl TypeError)"

text \<open>One entry of \<open>nearby_drivers\<close>: the dictionary with keys driver, availability, distance.\<close>

record candidate =
  cand_driver :: user
  cand_availability :: driver_availability
  cand_distance :: decimal

definition active_statuses :: "delivery_status list" where
  "active_statuses = [Assigned, Accepted, Picked_up, En_route]"

definition active_delivery_count :: "db \<Rightarrow> user \<Rightarrow> nat" where
  "active_delivery_count s u =
     length (filter (\<lambda>d. driver_id d = Some (user_id u) \<and> status d \<in> set active_statuses)
               (deliveries s))"

text \<open>The queryset \<open>is_online=True, driver__is_verified_driver=True, driver__is_active=True\<close>.\<close>

definition online_drivers :: "db \<Rightarrow> driver_availability list" where
  "online_drivers s =
     filter (\<lambda>a. is_online a \<and> is_verified_driver (driver a) \<and> is_active (driver a))
       (availabilities s)"

text \<open>The first loop: \<open>truly_available\<close>.\<close>

definition truly_available :: "db \<Rightarrow> driver_availability list" where
  "truly_available s =
     filter (\<lambda>a. is_available a \<or> active_delivery_count s (driver a) = 0) (online_drivers s)"

text \<open>The second loop: \<open>nearby_drivers\<close>, in the order of \<open>truly_available\<close>.\<close>

fun nearby_drivers ::
  "runtime \<Rightarrow> decimal option \<Rightarrow> decimal option \<Rightarrow> decimal \<Rightarrow> driver_availability list
     \<Rightarrow> error + candidate list"
where
  "nearby_drivers rt restaurant_lat restaurant_lon radius_km [] = Inr []"
| "nearby_drivers rt restaurant_lat restaurant_lon radius_km (a # rest) =
     (if truthy (current_latitude a) \<and> truthy (current_longitude a) then
        (case calculate_distance rt restaurant_lat restaurant_lon
                (current_latitude a) (current_longitude a) of
           Inl e \<Rightarrow> Inl e
         | Inr distance \<Rightarrow>
             (case nearby_drivers rt restaurant_lat restaurant_lon radius_km rest of
                Inl e \<Rightarrow> Inl e
              | Inr found \<Rightarrow>
                  Inr (if distance \<le> radius_km
                       then \<lparr>cand_driver = driver a, cand_availability = a,
                              cand_distance = distance\<rparr> # found
                       else found)))
      else
        (case nearby_drivers rt restaurant_lat restaurant_lon radius_km rest of
           Inl e \<Rightarrow> Inl e
         | Inr found \<Rightarrow>
             Inr (\<lparr>cand_driver = driver a, cand_availability = a,
                    cand_distance = times_0_8 rt radius_km\<rparr> # found)))"

text \<open>The sort key \<open>(-x['availability'].average_rating, x['distance'])\<close>.\<close>

definition rank_key :: "candidate \<Rightarrow> decimal \<times> decimal" where
  "rank_key x = (- average_rating (cand_availability x), cand_distance x)"

text \<open>\<open>list.sort\<close> is stable, as \<open>sort_key\<close> is.\<close>

definition find_available_drivers ::
  "runtime \<Rightarrow> db \<Rightarrow> decimal option \<Rightarrow> decimal option \<Rightarrow> decimal \<Rightarrow> error + candidate list"
where
  "find_available_drivers rt s restaurant_lat restaurant_lon radius_km =
     (case nearby_drivers rt restaurant_lat restaurant_lon radius_km (truly_available s) of
        Inl e \<Rightarrow> Inl e
      | Inr nearby \<Rightarrow> Inr (sort_key rank_key nearby))"

section \<open>Assignment and reassignment (delivery/assignment.py)\<close>

text \<open>
  The local \<open>notify_driver_new_delivery\<close>: nothing is sent for a delivery without a driver.
  The helper reads \<open>delivery.order\<close>, which raises \<open>DoesNotExist\<close> when the order's row is
  missing. The result is the exception raised, if any, and the state.
\<close>

definition notify_driver_new_delivery :: "delivery \<Rightarrow> db \<Rightarrow> error option \<times> db" where
  "notify_driver_new_delivery d s =
     (case driver_id d of
        None \<Rightarrow> (None, s)
      | Some u \<Rightarrow>
          (case get_order s (order_id d) of
             None \<Rightarrow> (Some DoesNotExist, s)
           | Some _ \<Rightarrow> (None, send (Driver_new_delivery u (delivery_pk d)) s)))"

text \<open>
  \<open>assign_delivery_to_driver\<close> returns the delivery, or \<open>None\<close>; an exception that
  escapes is \<open>Inl\<close>. The state comes back with the result. The returned object keeps the
  candidate's distance as computed, and its row keeps what the column stores of it.
\<close>

definition assign_delivery_to_driver ::
  "runtime \<Rightarrow> timestamp \<Rightarrow> nat \<Rightarrow> db \<Rightarrow> (error + delivery option) \<times> db"
where
  "assign_delivery_to_driver rt now oid s =
     (case get_order s oid of
        None \<Rightarrow> (Inr None, s)
      | Some ord \<Rightarrow>
          (let existing_delivery = get_delivery_by_order s oid in
           if (case existing_delivery of None \<Rightarrow> False | Some d \<Rightarrow> driver_id d \<noteq> None)
           then (Inr existing_delivery, s)
           else if \<not> truthy (latitude (order_restaurant ord))
                   \<or> \<not> truthy (longitude (order_restaurant ord))
           then (Inr None, s)
           else
             (case find_available_drivers rt s (latitude (order_restaurant ord))
                     (longitude (order_restaurant ord)) 10 of
                Inl e \<Rightarrow> (Inl e, s)
              | Inr [] \<Rightarrow> (Inr None, s)
              | Inr (best # _) \<Rightarrow>
                  (let d =
                     (case existing_delivery of
                        Some old \<Rightarrow>
                          old\<lparr>driver_id := Some (user_id (cand_driver best)),
                              status := Assigned,
                              pickup_latitude := latitude (order_restaurant ord),
                              pickup_longitude := longitude (order_restaurant ord),
                              delivery_latitude := order_delivery_latitude ord,
                              delivery_longitude := order_delivery_longitude ord,
                              distance_km := Some (cand_distance best),
                              assigned_at := Some now\<rparr>
                      | None \<Rightarrow>
                          \<lparr>delivery_pk = next_delivery_pk s,
                           order_id = oid,
                           driver_id = Some (user_id (cand_driver best)),
                           status = Assigned,
                           pickup_latitude = latitude (order_restaurant ord),
                           pickup_longitude = longitude (order_restaurant ord),
                           delivery_latitude = order_delivery_latitude ord,
                           delivery_longitude = order_delivery_longitude ord,
                           actual_delivery_time = None,
                           distance_km = Some (cand_distance best),
                           driver_notes = [],
                           assigned_at = Some now,
                           accepted_at = None\<rparr>);
                     row = d\<lparr>distance_km := Some (stored_distance rt (cand_distance best))\<rparr>;
                     s1 =
                       (case existing_delivery of
                          Some _ \<Rightarrow> save_delivery row s
                        | None \<Rightarrow> s\<lparr>deliveries := deliveries s @ [row]\<rparr>);
                     s2 = update_order oid (\<lambda>r. r\<lparr>order_status := Order_confirmed\<rparr>) s1
                   in case notify_driver_new_delivery d s2 of
                        (Some e, s3) \<Rightarrow> (Inl e, s3)
                      | (None, s3) \<Rightarrow> (Inr (Some d), s3)))))"

text \<open>
  \<open>reassign_delivery\<close>: an exception of the distance computation escapes after the
  previous driver's row has been saved, and one of the notification after the delivery's
  row has been saved.
\<close>

definition release_previous_driver :: "delivery \<Rightarrow> db \<Rightarrow> db" where
  "release_previous_driver d s =
     (case driver_id d of
        None \<Rightarrow> s
      | Some u \<Rightarrow>
          (case get_availability s u of
             None \<Rightarrow> s
           | Some _ \<Rightarrow> update_availability u (\<lambda>a. a\<lparr>is_available := True\<rparr>) s))"

definition reassign_delivery ::
  "runtime \<Rightarrow> timestamp \<Rightarrow> nat \<Rightarrow> db \<Rightarrow> (error + delivery option) \<times> db"
where
  "reassign_delivery rt now did s =
     (case get_delivery s did of
        None \<Rightarrow> (Inr None, s)
      | Some d \<Rightarrow>
          (let s1 = release_previous_driver d s in
           case find_available_drivers rt s1 (pickup_latitude d) (pickup_longitude d) 10 of
             Inl e \<Rightarrow> (Inl e, s1)
           | Inr [] \<Rightarrow>
               (Inr None, save_delivery (d\<lparr>status := Pending, driver_id := None\<rparr>) s1)
           | Inr (best # _) \<Rightarrow>
               (let d' = d\<lparr>driver_id := Some (user_id (cand_driver best)),
                            status := Assigned,
                            assigned_at := Some now\<rparr>;
                    s2 = save_delivery d' s1
                in case notify_driver_new_delivery d' s2 of
                     (Some e, s3) \<Rightarrow> (Inl e, s3)
                   | (None, s3) \<Rightarrow> (Inr (Some d'), s3))))"

section \<open>AssignmentService (delivery/services.py)\<close>

text \<open>
  The dictionary that \<open>process_delivery_assignment\<close> returns: a key that a branch does
  not set is \<open>None\<close>.
\<close>

record assignment_result =
  success :: bool
  res_delivery_id :: "nat option"
  res_driver_id :: "nat option"
  already_assigned :: "bool option"
  res_error :: "string option"
  retry :: "bool option"

definition failure :: "string \<Rightarrow> bool \<Rightarrow> assignment_result" where
  "failure msg again =
     \<lparr>success = False, res_delivery_id = None, res_driver_id = None, already_assigned = None,
      res_error = Some msg, retry = Some again\<rparr>"

definition manual_note :: "string \<Rightarrow> string" where
  "manual_note reason = reason @ '' - requires manual assignment''"

text \<open>\<open>_mark_for_manual_assignment\<close>: \<open>get_or_create\<close> on the order's delivery.\<close>

definition mark_for_manual_assignment :: "nat \<Rightarrow> string \<Rightarrow> db \<Rightarrow> db" where
  "mark_for_manual_assignment oid reason s =
     (case get_delivery_by_order s oid of
        None \<Rightarrow>
          s\<lparr>deliveries := deliveries s @
               [\<lparr>delivery_pk = next_delivery_pk s,
                 order_id = oid,
                 driver_id = None,
                 status = Pending,
                 pickup_latitude = None,
                 pickup_longitude = None,
                 delivery_latitude = None,
                 delivery_longitude = None,
                 actual_delivery_time = None,
                 distance_km = None,
                 driver_notes = manual_note reason,
                 assigned_at = None,
                 accepted_at = None\<rparr>]\<rparr>
      | Some d \<Rightarrow> save_delivery (d\<lparr>status := Pending, driver_notes := manual_note reason\<rparr>) s)"

text \<open>\<open>_send_assignment_notifications\<close>, called with a delivery that has a driver.\<close>

definition send_assignment_notifications :: "delivery \<Rightarrow> nat \<Rightarrow> db \<Rightarrow> db" where
  "send_assignment_notifications d u s =
     send (Email_driver_new_delivery (delivery_pk d))
       (send (Customer_order_status (order_id d) ''driver_assigned'')
          (send (Driver_new_delivery u (delivery_pk d)) s))"

text \<open>
  \<open>process_delivery_assignment\<close>: an exception of the attempt is caught and comes back as
  a retryable failure that carries \<open>str(e)\<close>.
\<close>

definition process_delivery_assignment ::
  "runtime \<Rightarrow> timestamp \<Rightarrow> nat \<Rightarrow> int \<Rightarrow> int \<Rightarrow> db \<Rightarrow> assignment_result \<times> db"
where
  "process_delivery_assignment rt now oid max_retries current_retry s =
     (case get_order s oid of
        None \<Rightarrow> (failure ''Order not found'' False, s)
      | Some _ \<Rightarrow>
          (let existing_delivery = get_delivery_by_order s oid in
           if (case existing_delivery of
                 None \<Rightarrow> False
               | Some d \<Rightarrow> driver_id d \<noteq> None \<and> status d \<noteq> Pending)
           then
             (\<lparr>success = True,
               res_delivery_id = map_option delivery_pk existing_delivery,
               res_driver_id = None,
               already_assigned = Some True,
               res_error = None,
               retry = None\<rparr>, s)
           else if length (online_drivers s) = 0 then
             (if current_retry \<ge> max_retries
              then (failure ''No drivers online'' False,
                    mark_for_manual_assignment oid ''No drivers online'' s)
              else (failure ''No drivers online'' True, s))
           else
             (case assign_delivery_to_driver rt now oid s of
                (Inl e, s1) \<Rightarrow> (failure (str_of rt e) True, s1)
              | (Inr (Some d), s1) \<Rightarrow>
                  (case driver_id d of
                     Some u \<Rightarrow>
                       (\<lparr>success = True,
                         res_delivery_id = Some (delivery_pk d),
                         res_driver_id = Some u,
                         already_assigned = None,
                         res_error = None,
                         retry = None\<rparr>, send_assignment_notifications d u s1)
                   | None \<Rightarrow>
                       (if current_retry \<ge> max_retries
                        then (failure ''All drivers busy'' False,
                              mark_for_manual_assignment oid ''All drivers busy'' s1)
                        else (failure ''All drivers busy'' True, s1)))
              | (Inr None, s1) \<Rightarrow>
                  (if current_retry \<ge> max_retries
                   then (failure ''All drivers busy'' False,
                         mark_for_manual_assignment oid ''All drivers busy'' s1)
                   else (failure ''All drivers busy'' True, s1)))))"

section \<open>DeliveryStateMachine (delivery/models.py)\<close>

text \<open>
  The methods run on a loaded \<open>Delivery\<close> object \<open>d\<close>: they set its fields and write
  the listed \<open>update_fields\<close> to its row. \<open>save(update_fields=...)\<close> raises
  \<open>DatabaseError\<close> when no row has the object's key, and the method stops there. The result
  is the object as the method leaves it, the exception that escapes (if any), and the state.
\<close>

definition accept_delivery ::
  "timestamp \<Rightarrow> delivery \<Rightarrow> db \<Rightarrow> delivery \<times> error option \<times> db"
where
  "accept_delivery now d s =
     (let d' = d\<lparr>status := Accepted, accepted_at := Some now\<rparr> in
      case get_delivery s (delivery_pk d) of
        None \<Rightarrow> (d', Some DatabaseError, s)
      | Some _ \<Rightarrow>
          (let s1 = update_delivery (delivery_pk d)
                      (\<lambda>r. r\<lparr>status := Accepted, accepted_at := Some now\<rparr>) s;
               s2 =
                 (case driver_id d of
                    None \<Rightarrow> s1
                  | Some u \<Rightarrow>
                      (case get_availability s1 u of
                         None \<Rightarrow> s1
                       | Some _ \<Rightarrow>
                           update_availability u (\<lambda>a. a\<lparr>is_available := False\<rparr>) s1))
           in (d', None, s2)))"

text \<open>
  \<open>mark_delivered\<close>: \<open>self.order\<close> raises \<open>DoesNotExist\<close> when the order's row is
  missing. A driver without an availability row raises inside the \<open>try\<close>, which is caught
  and printed.
\<close>

definition restore_driver_availability :: "nat \<Rightarrow> db \<Rightarrow> db" where
  "restore_driver_availability u s =
     (case get_availability s u of
        None \<Rightarrow> s
      | Some a \<Rightarrow>
          (let s1 = (if is_online a
                     then update_availability u (\<lambda>r. r\<lparr>is_available := True\<rparr>) s
                     else s)
           in update_availability u
                (\<lambda>r. r\<lparr>total_deliveries := total_deliveries a + 1,
                       successful_deliveries := successful_deliveries a + 1,
                       cancelled_deliveries := cancelled_deliveries a\<rparr>) s1))"

definition mark_delivered ::
  "timestamp \<Rightarrow> delivery \<Rightarrow> db \<Rightarrow> delivery \<times> error option \<times> db"
where
  "mark_delivered now d s =
     (let d' = d\<lparr>status := Delivered, actual_delivery_time := Some now\<rparr> in
      case get_delivery s (delivery_pk d) of
        None \<Rightarrow> (d', Some DatabaseError, s)
      | Some _ \<Rightarrow>
          (let s1 = update_delivery (delivery_pk d)
                      (\<lambda>r. r\<lparr>status := Delivered, actual_delivery_time := Some now\<rparr>) s
           in case get_order s1 (order_id d) of
                None \<Rightarrow> (d', Some DoesNotExist, s1)
              | Some _ \<Rightarrow>
                  (let s2 = update_order (order_id d)
                              (\<lambda>r. r\<lparr>order_status := Order_delivered,
                                     delivered_at := Some now\<rparr>) s1;
                       s3 = send (Email_order_delivered (order_id d)) s2;
                       s4 = send (Customer_order_status (order_id d) ''delivered'') s3;
                       s5 = send (Vendor_order_update (order_id d)) s4;
                       s6 = (case driver_id d of
                               None \<Rightarrow> s5
                             | Some u \<Rightarrow> restore_driver_availability u s5)
                   in (d', None, s6))))"

section \<open>Rejection (delivery/views.py)\<close>

text \<open>
  \<open>reject_delivery\<close>: the HTTP status of the response and the state. The reassignment
  that the view hands to \<open>run_task_safe\<close> is the event \<open>Task_dispatched\<close>. A missing
  order row makes \<open>delivery.order\<close> raise, which the framework answers with status 500.
\<close>

definition reject_delivery :: "user \<Rightarrow> nat \<Rightarrow> db \<Rightarrow> nat \<times> db" where
  "reject_delivery request_user did s =
     (if \<not> is_driver request_user then (403, s)
      else
        (case find (\<lambda>d. delivery_pk d = did \<and> driver_id d = Some (user_id request_user)
                         \<and> status d \<in> set [Assigned, Pending]) (deliveries s) of
           None \<Rightarrow> (404, s)
         | Some d \<Rightarrow>
             (let s1 = save_delivery (d\<lparr>status := Pending, driver_id := None\<rparr>) s;
                  s2 =
                    (case get_availability s1 (user_id request_user) of
                       None \<Rightarrow> s1
                     | Some a \<Rightarrow>
                         (if is_online a
                          then update_availability (user_id request_user)
                                 (\<lambda>r. r\<lparr>is_available := True\<rparr>) s1
                          else s1))
              in case get_order s2 (order_id d) of
                   None \<Rightarrow> (500, s2)
                 | Some _ \<Rightarrow>
                     (let s3 = send (Customer_order_status (order_id d) ''rejected'') s2;
                          s4 = send (Task_dispatched ''assign_delivery_async'' (order_id d)) s3
                      in (200, s4)))))"

section \<open>Timeout check (delivery/tasks.py)\<close>

text \<open>
  The four dictionaries that \<open>check_assignment_timeout\<close> returns. The task catches
  \<open>Delivery.DoesNotExist\<close> only. Subtracting a null \<open>assigned_at\<close> raises \<open>TypeError\<close>.
  When the delivery has a driver, the task imports \<open>notify_driver_delivery_reassigned\<close>
  from \<open>core.utils.websocket_notifications\<close>, which does not define that name: the import
  raises \<open>ImportError\<close> before \<open>reassign_delivery\<close> is called.
\<close>

datatype timeout_result =
  Reassigned | Not_reassigned | No_action delivery_status | Delivery_not_found

text \<open>What the task does with the outcome of its call of \<open>reassign_delivery\<close>.\<close>

definition after_reassign ::
  "(error + delivery option) \<times> db \<Rightarrow> (error + timeout_result) \<times> db"
where
  "after_reassign out =
     (case out of
        (Inl e, s) \<Rightarrow> (Inl e, s)
      | (Inr None, s) \<Rightarrow> (Inr Not_reassigned, s)
      | (Inr (Some nd), s) \<Rightarrow>
          (if driver_id nd \<noteq> None
           then (Inr Reassigned,
                 send (Task_dispatched ''notify_driver_new_delivery'' (delivery_pk nd)) s)
           else (Inr Not_reassigned, s)))"

definition check_assignment_timeout ::
  "runtime \<Rightarrow> decimal \<Rightarrow> timestamp \<Rightarrow> nat \<Rightarrow> db \<Rightarrow> (error + timeout_result) \<times> db"
where
  "check_assignment_timeout rt timeout now did s =
     (case get_delivery s did of
        None \<Rightarrow> (Inr Delivery_not_found, s)
      | Some d \<Rightarrow>
          (if status d = Assigned then
             (case assigned_at d of
                None \<Rightarrow> (Inl TypeError, s)
              | Some t \<Rightarrow>
                  (if now - t \<ge> timeout
                   then (case driver_id d of
                           Some _ \<Rightarrow> (Inl ImportError, s)
                         | None \<Rightarrow> after_reassign (reassign_delivery rt now did s))
                   else (Inr (No_action (status d)), s)))
           else (Inr (No_action (status d)), s)))"

definition default_timeout :: decimal where
  "default_timeout = 300"

section \<open>TaskExecutor (core/utils/task_helper.py)\<close>

text \<open>
  \<open>run_task_safe\<close> over any state: \<open>delay\<close> is \<open>task_func.delay(...)\<close>,
  \<open>start_thread\<close> is the creation and start of the thread that runs \<open>sync_func\<close>, and
  \<open>sync_func\<close> is the inline call. Each returns \<open>Inl\<close> when it raises.
\<close>

definition run_task_safe ::
  "bool \<Rightarrow> ('s \<Rightarrow> ('e + 'q) \<times> 's) \<Rightarrow> ('s \<Rightarrow> ('e + unit) \<times> 's) \<Rightarrow> ('s \<Rightarrow> ('e + 'r) \<times> 's)
     \<Rightarrow> 's \<Rightarrow> bool \<times> 's"
where
  "run_task_safe enable_celery delay start_thread sync_func s =
     (let (queued, s1) =
            (if enable_celery
             then (case delay s of
                     (Inr _, s') \<Rightarrow> (True, s')
                   | (Inl _, s') \<Rightarrow> (False, s'))
             else (False, s))
      in if queued then (True, s1)
         else
           (case start_thread s1 of
              (Inr _, s2) \<Rightarrow> (True, s2)
            | (Inl _, s2) \<Rightarrow>
                (case sync_func s2 of
                   (Inr _, s3) \<Rightarrow> (True, s3)
                 | (Inl _, s3) \<Rightarrow> (False, s3))))"

section \<open>Concrete scenarios\<close>

text \<open>
  A stand-in for the runtime on the scenarios below. The distance is 100 km for each
  degree of difference in latitude and in longitude, so that a point is at distance 0 from
  itself, as with the real formula; for the pickup point (8, 1) and its antipode
  (-8, -179) it raises, as the floating-point formula does there. The product
  \<open>radius_km * 0.8\<close> is taken exactly (as it is for the radius 10 that every caller
  passes), and the stored distance is rounded to two places.
\<close>

definition ex_hav :: "decimal \<Rightarrow> decimal \<Rightarrow> decimal \<Rightarrow> decimal \<Rightarrow> decimal option" where
  "ex_hav a b c d =
     (if (a, b, c, d) = (8, 1, - 8, - 179) then None
      else Some (100 * (\<bar>a - c\<bar> + \<bar>b - d\<bar>)))"

definition ex_times_0_8 :: "decimal \<Rightarrow> decimal" where
  "ex_times_0_8 r = r * (8 / 10)"

definition ex_stored_distance :: "decimal \<Rightarrow> decimal" where
  "ex_stored_distance x = of_int (round (x * 100)) / 100"

definition ex_str_of :: "error \<Rightarrow> string" where
  "ex_str_of e = (case e of ValueError \<Rightarrow> ''math domain error'' | _ \<Rightarrow> [])"

definition ex_rt :: runtime where
  "ex_rt = \<lparr>haversine = ex_hav, times_0_8 = ex_times_0_8,
            stored_distance = ex_stored_distance, str_of = ex_str_of\<rparr>"

text \<open>
  The tables are small: one restaurant at (1, 1), one order, one delivery for it, and
  drivers built by \<open>ex_availability\<close>.
\<close>

definition ex_driver :: "nat \<Rightarrow> user" where
  "ex_driver n = \<lparr>user_id = n, user_type = Driver, is_verified_driver = True, is_active = True\<rparr>"

definition ex_availability ::
  "nat \<Rightarrow> bool \<Rightarrow> bool \<Rightarrow> decimal option \<Rightarrow> decimal option \<Rightarrow> decimal \<Rightarrow> driver_availability"
where
  "ex_availability n online available lat lon rating =
     \<lparr>driver = ex_driver n, is_available = available, is_online = online,
      current_latitude = lat, current_longitude = lon, total_deliveries = 0,
      successful_deliveries = 0, cancelled_deliveries = 0, average_rating = rating\<rparr>"

definition ex_order :: order_row where
  "ex_order =
     \<lparr>order_pk = 1,
      order_restaurant = \<lparr>restaurant_id = 1, latitude = Some 1, longitude = Some 1\<rparr>,
      order_status = Order_pending,
      order_delivery_latitude = Some 2,
      order_delivery_longitude = Some 2,
      delivered_at = None\<rparr>"

definition ex_delivery :: "delivery_status \<Rightarrow> nat option \<Rightarrow> timestamp option \<Rightarrow> delivery" where
  "ex_delivery st drv since =
     \<lparr>delivery_pk = 1, order_id = 1, driver_id = drv, status = st,
      pickup_latitude = Some 1, pickup_longitude = Some 1,
      delivery_latitude = Some 2, delivery_longitude = Some 2,
      actual_delivery_time = None, distance_km = None, driver_notes = [],
      assigned_at = since, accepted_at = None\<rparr>"

definition ex_db :: "order_row list \<Rightarrow> delivery list \<Rightarrow> driver_availability list \<Rightarrow> db" where
  "ex_db os ds as = \<lparr>orders = os, deliveries = ds, availabilities = as, outbox = []\<rparr>"

definition ex_candidate :: "driver_availability \<Rightarrow> decimal \<Rightarrow> candidate" where
  "ex_candidate a distance =
     \<lparr>cand_driver = driver a, cand_availability = a, cand_distance = distance\<rparr>"

text \<open>
  Three drivers in radius, north of a pickup point at (1, 1), in table order: rating 4.2
  at distance 1, rating 4.8 at distance 3, rating 4.2 at distance 1/2.
\<close>

definition ranking_db :: db where
  "ranking_db = ex_db [] []
     [ex_availability 2 True True (Some (101 / 100)) (Some 1) (42 / 10),
      ex_availability 1 True True (Some (103 / 100)) (Some 1) (48 / 10),
      ex_availability 3 True True (Some (1005 / 1000)) (Some 1) (42 / 10)]"

definition ranking_result :: "candidate list" where
  "ranking_result =
     [ex_candidate (ex_availability 1 True True (Some (103 / 100)) (Some 1) (48 / 10)) 3,
      ex_candidate (ex_availability 3 True True (Some (1005 / 1000)) (Some 1) (42 / 10)) (1 / 2),
      ex_candidate (ex_availability 2 True True (Some (101 / 100)) (Some 1) (42 / 10)) 1]"



text \<open>
  The given driver, and after it a second driver who is online at (-8, -179), the
  antipode of the pickup point (8, 1).
\<close>

definition antipodal_db :: "driver_availability \<Rightarrow> db" where
  "antipodal_db a = ex_db [] [] [a, ex_availability 2 True True (Some (- 8)) (Some (- 179)) 4]"

text \<open>
  A confirmed order without a delivery: with driver 7 waiting at the restaurant, and with
  no driver at all.
\<close>

definition fresh_db :: db where
  "fresh_db = ex_db [ex_order] [] [ex_availability 7 True True (Some 1) (Some 1) (45 / 10)]"

definition no_drivers_db :: db where
  "no_drivers_db = ex_db [ex_order] [] []"


text \<open>
  A delivery assigned at time 0 to driver 7, who is at the pickup point: online and
  available in \<open>assigned_db\<close>, online and marked unavailable in \<open>stale_db\<close>, offline in
  \<open>offline_db\<close>. In \<open>orphan_db\<close> the assigned delivery has lost its driver, and driver 7
  waits at the pickup point.
\<close>

definition assigned_db :: db where
  "assigned_db = ex_db [ex_order] [ex_delivery Assigned (Some 7) (Some 0)]
     [ex_availability 7 True True (Some 1) (Some 1) 4]"

definition stale_db :: db where
  "stale_db = ex_db [ex_order] [ex_delivery Assigned (Some 7) (Some 0)]
     [ex_availability 7 True False (Some 1) (Some 1) 4]"

definition offline_db :: db where
  "offline_db = ex_db [ex_order] [ex_delivery Assigned (Some 7) (Some 0)]
     [ex_availability 7 False False (Some 1) (Some 1) 4]"

definition orphan_db :: db where
  "orphan_db = ex_db [ex_order] [ex_delivery Assigned None (Some 0)]
     [ex_availability 7 True True (Some 1) (Some 1) 4]"

text \<open>
  As \<open>stale_db\<close>, with a second driver 8 of rating 5 who waits at the pickup point and
  is available.
\<close>

definition handover_db :: db where
  "handover_db = ex_db [ex_order] [ex_delivery Assigned (Some 7) (Some 0)]
     [ex_availability 7 True False (Some 1) (Some 1) 4,
      ex_availability 8 True True (Some 1) (Some 1) 5]"

text \<open>
  An operation on a log of names for \<open>run_task_safe\<close>: it records its name and
  succeeds or raises as told.
\<close>

definition ex_step :: "bool \<Rightarrow> string \<Rightarrow> string list \<Rightarrow> (unit + unit) \<times> string list" where
  "ex_step ok name trace = (if ok then Inr () else Inl (), trace @ [name])"

section \<open>Facts about the tables\<close>

lemmas scenario_defs =
  ex_rt_def ex_hav_def ex_times_0_8_def ex_stored_distance_def ex_str_of_def
  ex_driver_def ex_availability_def ex_order_def ex_delivery_def ex_db_def ex_candidate_def

lemmas query_defs =
  get_order_def get_delivery_def get_delivery_by_order_def get_availability_def
  update_delivery_def save_delivery_def update_availability_def update_order_def send_def
  next_delivery_pk_def

lemmas matcher_defs =
  find_available_drivers_def truly_available_def online_drivers_def active_delivery_count_def
  calculate_distance_def rank_key_def sort_key_def active_statuses_def

lemma tables_update_delivery [simp]:
  "orders (update_delivery i f s) = orders s"
  "availabilities (update_delivery i f s) = availabilities s"
  "outbox (update_delivery i f s) = outbox s"
  by (simp_all add: update_delivery_def)

lemma tables_save_delivery [simp]:
  "orders (save_delivery d s) = orders s"
  "availabilities (save_delivery d s) = availabilities s"
  "outbox (save_delivery d s) = outbox s"
  by (simp_all add: save_delivery_def)

lemma tables_update_availability [simp]:
  "orders (update_availability u f s) = orders s"
  "deliveries (update_availability u f s) = deliveries s"
  "outbox (update_availability u f s) = outbox s"
  by (simp_all add: update_availability_def)

lemma tables_update_order [simp]:
  "deliveries (update_order i f s) = deliveries s"
  "availabilities (update_order i f s) = availabilities s"
  "outbox (update_order i f s) = outbox s"
  by (simp_all add: update_order_def)

lemma tables_send [simp]:
  "orders (send e s) = orders s"
  "deliveries (send e s) = deliveries s"
  "availabilities (send e s) = availabilities s"
  "outbox (send e s) = outbox s @ [e]"
  by (simp_all add: send_def)

lemma tables_notify_driver_new_delivery [simp]:
  "orders (snd (notify_driver_new_delivery d s)) = orders s"
  "deliveries (snd (notify_driver_new_delivery d s)) = deliveries s"
  "availabilities (snd (notify_driver_new_delivery d s)) = availabilities s"
  by (simp_all add: notify_driver_new_delivery_def split: option.splits)

text \<open>Rewriting the rows that satisfy \<open>P\<close>, seen through \<open>find\<close>.\<close>

lemma map_replace_absent:
  "find P xs = None \<Longrightarrow> map (\<lambda>a. if P a then f a else a) xs = xs"
  by (induction xs) (auto split: if_splits)

lemma find_map_update:
  "find P xs = Some a \<Longrightarrow> (\<And>r. P (f r) = P r) \<Longrightarrow>
   find P (map (\<lambda>r. if P r then f r else r) xs) = Some (f a)"
  by (induction xs) (auto split: if_splits)

lemma find_map_replace:
  "find (\<lambda>r. order_id r = oid) ds = Some d \<Longrightarrow> order_id d' = oid \<Longrightarrow>
   find (\<lambda>r. order_id r = oid)
     (map (\<lambda>r. if delivery_pk r = delivery_pk d then d' else r) ds) = Some d'"
  by (induction ds) (auto split: if_splits)

lemma find_append_new:
  "find P xs = None \<Longrightarrow> P x \<Longrightarrow> find P (xs @ [x]) = Some x"
  by (induction xs) (auto split: if_splits)

section \<open>The matcher\<close>

text \<open>
  The second loop returns a list exactly when the distance computation raises for none
  of the located drivers it is given; otherwise it raises what that computation raised.
\<close>

lemma nearby_drivers_returns_iff:
  "(\<exists>cs. nearby_drivers rt rlat rlon r as = Inr cs) \<longleftrightarrow>
   (\<forall>b \<in> set as. truthy (current_latitude b) \<and> truthy (current_longitude b) \<longrightarrow>
      (\<exists>x. calculate_distance rt rlat rlon (current_latitude b) (current_longitude b) = Inr x))"
proof (induction as)
  case Nil
  show ?case by simp
next
  case (Cons a as)
  show ?case
  proof (cases "truthy (current_latitude a) \<and> truthy (current_longitude a)")
    case located: True
    show ?thesis
    proof (cases "calculate_distance rt rlat rlon (current_latitude a) (current_longitude a)")
      case (Inl e)
      with located show ?thesis by auto
    next
      case (Inr x)
      with located Cons.IH show ?thesis
        by (cases "nearby_drivers rt rlat rlon r as") auto
    qed
  next
    case False
    with Cons.IH show ?thesis
      by (cases "nearby_drivers rt rlat rlon r as") auto
  qed
qed





lemma find_available_drivers_returns_iff:
  "(\<exists>cs. find_available_drivers rt s rlat rlon r = Inr cs) \<longleftrightarrow>
   (\<forall>b \<in> set (truly_available s).
      truthy (current_latitude b) \<and> truthy (current_longitude b) \<longrightarrow>
      (\<exists>x. calculate_distance rt rlat rlon (current_latitude b) (current_longitude b) = Inr x))"
proof -
  have "(\<exists>cs. find_available_drivers rt s rlat rlon r = Inr cs) \<longleftrightarrow>
        (\<exists>cs. nearby_drivers rt rlat rlon r (truly_available s) = Inr cs)"
    by (cases "nearby_drivers rt rlat rlon r (truly_available s)")
      (simp_all add: find_available_drivers_def)
  then show ?thesis by (simp only: nearby_drivers_returns_iff)
qed


text \<open>
  In a list sorted by the pair (-rating, distance), a strictly better rating stands
  strictly earlier, and among equal ratings a strictly smaller distance does.
\<close>

lemma rank_sorted_pair:
  assumes "sorted (map (\<lambda>x. (- average_rating (cand_availability x), cand_distance x)) cs)"
    and "i < length cs" and "j \<le> i"
  shows "- average_rating (cand_availability (cs ! j)) < - average_rating (cand_availability (cs ! i))
       \<or> (- average_rating (cand_availability (cs ! j))
             \<le> - average_rating (cand_availability (cs ! i))
          \<and> cand_distance (cs ! j) \<le> cand_distance (cs ! i))"
proof -
  let ?keys = "map (\<lambda>x. (- average_rating (cand_availability x), cand_distance x)) cs"
  have "i < length ?keys" using assms(2) by simp
  with assms(1,3) have "?keys ! j \<le> ?keys ! i" by (rule sorted_nth_mono)
  moreover have "j < length cs" using assms(2,3) by simp
  ultimately show ?thesis using assms(2) by (simp add: less_eq_prod_def)
qed

lemma rank_sorted_rating:
  assumes "sorted (map (\<lambda>x. (- average_rating (cand_availability x), cand_distance x)) cs)"
    and "i < length cs" and "j < length cs"
    and "average_rating (cand_availability (cs ! j)) < average_rating (cand_availability (cs ! i))"
  shows "i < j"
proof (rule ccontr)
  assume "\<not> i < j"
  then have "j \<le> i" by simp
  from rank_sorted_pair[OF assms(1,2) this] assms(4) show False by auto
qed

lemma rank_sorted_distance:
  assumes "sorted (map (\<lambda>x. (- average_rating (cand_availability x), cand_distance x)) cs)"
    and "i < length cs" and "j < length cs"
    and "average_rating (cand_availability (cs ! i)) = average_rating (cand_availability (cs ! j))"
    and "cand_distance (cs ! i) < cand_distance (cs ! j)"
  shows "i < j"
proof (rule ccontr)
  assume "\<not> i < j"
  then have "j \<le> i" by simp
  from rank_sorted_pair[OF assms(1,2) this] assms(4,5) show False by auto
qed

text \<open>
  Claim C4 (matcher ranking). When \<open>find_available_drivers\<close> returns, the list is a
  rearrangement of the qualifying candidates that the two loops collect, it is sorted
  ascending by the pair (-rating, distance), of two entries with different ratings the
  higher-rated one stands first whatever their distances, and of two entries with the same
  rating the nearer one stands first. It returns exactly when the distance computation
  raises for none of the located drivers it considers. When that computation raises (as
  the formula does for a driver near the antipode of the pickup point), the exception
  escapes and no candidate is returned at all.
\<close>

theorem find_available_drivers_ranking:
  "(case find_available_drivers rt s rlat rlon radius_km of
      Inl e \<Rightarrow> nearby_drivers rt rlat rlon radius_km (truly_available s) = Inl e
    | Inr cs \<Rightarrow>
        (\<exists>nearby. nearby_drivers rt rlat rlon radius_km (truly_available s) = Inr nearby
           \<and> mset cs = mset nearby)
      \<and> sorted (map (\<lambda>x. (- average_rating (cand_availability x), cand_distance x)) cs)
      \<and> (\<forall>i j. i < length cs \<longrightarrow> j < length cs \<longrightarrow>
            average_rating (cand_availability (cs ! j))
              < average_rating (cand_availability (cs ! i)) \<longrightarrow>
            i < j)
      \<and> (\<forall>i j. i < length cs \<longrightarrow> j < length cs \<longrightarrow>
            average_rating (cand_availability (cs ! i))
              = average_rating (cand_availability (cs ! j)) \<longrightarrow>
            cand_distance (cs ! i) < cand_distance (cs ! j) \<longrightarrow>
            i < j))
 \<and> ((\<exists>cs. find_available_drivers rt s rlat rlon radius_km = Inr cs) \<longleftrightarrow>
      (\<forall>b \<in> set (truly_available s).
         truthy (current_latitude b) \<and> truthy (current_longitude b) \<longrightarrow>
         (\<exists>x. calculate_distance rt rlat rlon (current_latitude b) (current_longitude b)
                = Inr x)))"
proof (rule conjI)
  let ?key = "\<lambda>x. (- average_rating (cand_availability x), cand_distance x)"
  show "case find_available_drivers rt s rlat rlon radius_km of
      Inl e \<Rightarrow> nearby_drivers rt rlat rlon radius_km (truly_available s) = Inl e
    | Inr cs \<Rightarrow>
        (\<exists>nearby. nearby_drivers rt rlat rlon radius_km (truly_available s) = Inr nearby
           \<and> mset cs = mset nearby)
      \<and> sorted (map (\<lambda>x. (- average_rating (cand_availability x), cand_distance x)) cs)
      \<and> (\<forall>i j. i < length cs \<longrightarrow> j < length cs \<longrightarrow>
            average_rating (cand_availability (cs ! j))
              < average_rating (cand_availability (cs ! i)) \<longrightarrow>
            i < j)
      \<and> (\<forall>i j. i < length cs \<longrightarrow> j < length cs \<longrightarrow>
            average_rating (cand_availability (cs ! i))
              = average_rating (cand_availability (cs ! j)) \<longrightarrow>
            cand_distance (cs ! i) < cand_distance (cs ! j) \<longrightarrow>
            i < j)"
  proof (cases "nearby_drivers rt rlat rlon radius_km (truly_available s)")
    case (Inl e)
    then show ?thesis by (simp add: find_available_drivers_def)
  next
    case (Inr nearby)
    define cs where "cs = sort_key rank_key nearby"
    have key: "rank_key = ?key" by (rule ext) (simp add: rank_key_def)
    have f: "find_available_drivers rt s rlat rlon radius_km = Inr cs"
      using Inr by (simp add: find_available_drivers_def cs_def)
    have "sorted (map rank_key cs)" unfolding cs_def by (rule sorted_sort_key)
    then have srt: "sorted (map ?key cs)" by (simp only: key)
    have m: "mset cs = mset nearby" unfolding cs_def by simp
    have "(\<exists>nearby'. nearby_drivers rt rlat rlon radius_km (truly_available s) = Inr nearby'
             \<and> mset cs = mset nearby')
        \<and> sorted (map ?key cs)
        \<and> (\<forall>i j. i < length cs \<longrightarrow> j < length cs \<longrightarrow>
              average_rating (cand_availability (cs ! j))
                < average_rating (cand_availability (cs ! i)) \<longrightarrow>
              i < j)
        \<and> (\<forall>i j. i < length cs \<longrightarrow> j < length cs \<longrightarrow>
              average_rating (cand_availability (cs ! i))
                = average_rating (cand_availability (cs ! j)) \<longrightarrow>
              cand_distance (cs ! i) < cand_distance (cs ! j) \<longrightarrow>
              i < j)"
    proof (intro conjI allI impI)
      show "\<exists>nearby'. nearby_drivers rt rlat rlon radius_km (truly_available s) = Inr nearby'
              \<and> mset cs = mset nearby'"
        using Inr m by (intro exI[of _ nearby] conjI)
      show "sorted (map ?key cs)" by (rule srt)
    next
      fix i j
      assume "i < length cs" and "j < length cs"
        and "average_rating (cand_availability (cs ! j))
               < average_rating (cand_availability (cs ! i))"
      then show "i < j" by (rule rank_sorted_rating[OF srt])
    next
      fix i j
      assume "i < length cs" and "j < length cs"
        and "average_rating (cand_availability (cs ! i))
               = average_rating (cand_availability (cs ! j))"
        and "cand_distance (cs ! i) < cand_distance (cs ! j)"
      then show "i < j" by (rule rank_sorted_distance[OF srt])
    qed
    then show ?thesis unfolding f sum.case .
  qed
next
  show "(\<exists>cs. find_available_drivers rt s rlat rlon radius_km = Inr cs) \<longleftrightarrow>
      (\<forall>b \<in> set (truly_available s).
         truthy (current_latitude b) \<and> truthy (current_longitude b) \<longrightarrow>
         (\<exists>x. calculate_distance rt rlat rlon (current_latitude b) (current_longitude b)
                = Inr x))"
    by (rule find_available_drivers_returns_iff)
qed

text \<open>
  Three drivers around the pickup point (1, 1): the driver rated 4.8 is first although
  it is the farthest, and of the two drivers rated 4.2 the nearer one is second although
  it is the last in the table. With a second driver at the antipode of the pickup point
  (8, 1), the distance computation raises: the driver rated 4.8 close to the pickup point
  is not returned.
\<close>

theorem find_available_drivers_ranking_witness:
  "find_available_drivers ex_rt ranking_db (Some 1) (Some 1) 10 = Inr ranking_result
   \<and> map (\<lambda>x. (average_rating (cand_availability x), cand_distance x)) ranking_result
       = [(48 / 10, 3), (42 / 10, 1 / 2), (42 / 10, 1)]
   \<and> sorted (map (\<lambda>x. (- average_rating (cand_availability x), cand_distance x))
               ranking_result)
   \<and> find_available_drivers ex_rt
        (antipodal_db (ex_availability 1 True True (Some (803 / 100)) (Some 1) (48 / 10)))
        (Some 8) (Some 1) 10 = Inl ValueError
   \<and> nearby_drivers ex_rt (Some 8) (Some 1) 10
        (truly_available
           (antipodal_db (ex_availability 1 True True (Some (803 / 100)) (Some 1) (48 / 10))))
       = Inl ValueError"
proof -
  let ?bad = "antipodal_db (ex_availability 1 True True (Some (803 / 100)) (Some 1) (48 / 10))"
  have e: "find_available_drivers ex_rt ranking_db (Some 1) (Some 1) 10 = Inr ranking_result"
    by (simp add: ranking_db_def ranking_result_def scenario_defs matcher_defs)
  have b: "find_available_drivers ex_rt ?bad (Some 8) (Some 1) 10 = Inl ValueError"
    by (simp add: antipodal_db_def scenario_defs matcher_defs)
  have v: "map (\<lambda>x. (average_rating (cand_availability x), cand_distance x)) ranking_result
             = [(48 / 10, 3), (42 / 10, 1 / 2), (42 / 10, 1)]"
    by (simp add: ranking_result_def scenario_defs)
  note good = find_available_drivers_ranking[where rt = ex_rt and s = ranking_db
      and rlat = "Some 1" and rlon = "Some 1" and radius_km = 10,
      unfolded e sum.case, THEN conjunct1, THEN conjunct2, THEN conjunct1]
  note bad = find_available_drivers_ranking[where rt = ex_rt and s = "?bad"
      and rlat = "Some 8" and rlon = "Some 1" and radius_km = 10,
      unfolded b sum.case, THEN conjunct1]
  show ?thesis by (intro conjI e v good b bad)
qed





section \<open>Assignment\<close>

lemmas service_defs =
  process_delivery_assignment_def assign_delivery_to_driver_def reassign_delivery_def
  release_previous_driver_def notify_driver_new_delivery_def mark_for_manual_assignment_def
  send_assignment_notifications_def failure_def manual_note_def Let_def

text \<open>After \<open>_mark_for_manual_assignment\<close> the order's delivery is pending and carries the note.\<close>

lemma mark_for_manual_assignment_marks:
  "\<exists>d. get_delivery_by_order (mark_for_manual_assignment oid reason s) oid = Some d
        \<and> status d = Pending \<and> driver_notes d = manual_note reason"
proof (cases "get_delivery_by_order s oid")
  case None
  then show ?thesis
    by (simp add: mark_for_manual_assignment_def get_delivery_by_order_def find_append_new)
next
  case (Some d)
  let ?d' = "d\<lparr>status := Pending, driver_notes := manual_note reason\<rparr>"
  from Some have "order_id d = oid"
    by (auto simp: get_delivery_by_order_def find_Some_iff)
  then have "order_id ?d' = oid" by simp
  with Some have "get_delivery_by_order (save_delivery ?d' s) oid = Some ?d'"
    by (simp add: get_delivery_by_order_def save_delivery_def update_delivery_def
        find_map_replace)
  with Some show ?thesis by (simp add: mark_for_manual_assignment_def)
qed

text \<open>\<open>assign_delivery_to_driver\<close> returns \<open>None\<close> only without having written anything.\<close>

lemma assign_delivery_to_driver_none:
  "assign_delivery_to_driver rt now oid s = (Inr None, s1) \<Longrightarrow> s1 = s"
  by (auto simp: assign_delivery_to_driver_def Let_def
      split: option.splits if_splits sum.splits list.splits prod.splits)

text \<open>
  Claim C1 (idempotent assignment), as amended. For an order whose delivery has a driver
  and a status other than pending, \<open>process_delivery_assignment\<close> returns success with
  the delivery's id and \<open>already_assigned\<close>, and no \<open>driver_id\<close> key;
  \<open>assign_delivery_to_driver\<close> returns that delivery row itself, driver included. Both
  leave the whole state as it was: no row is created and nothing is sent.
\<close>

theorem idempotent_assignment:
  assumes "get_order s oid = Some ord"
    and "get_delivery_by_order s oid = Some d"
    and "driver_id d = Some u"
    and "status d \<noteq> Pending"
  shows "process_delivery_assignment rt now oid max_retries current_retry s =
           (\<lparr>success = True, res_delivery_id = Some (delivery_pk d), res_driver_id = None,
             already_assigned = Some True, res_error = None, retry = None\<rparr>, s)
       \<and> assign_delivery_to_driver rt now oid s = (Inr (Some d), s)"
  using assms by (simp add: process_delivery_assignment_def assign_delivery_to_driver_def)

theorem idempotent_assignment_witness:
  "process_delivery_assignment ex_rt 5 1 3 0 stale_db =
     (\<lparr>success = True, res_delivery_id = Some 1, res_driver_id = None,
       already_assigned = Some True, res_error = None, retry = None\<rparr>, stale_db)
   \<and> assign_delivery_to_driver ex_rt 5 1 stale_db =
       (Inr (Some (ex_delivery Assigned (Some 7) (Some 0))), stale_db)"
proof -
  have o: "get_order stale_db 1 = Some ex_order"
    by (simp add: stale_db_def scenario_defs query_defs)
  have d: "get_delivery_by_order stale_db 1 = Some (ex_delivery Assigned (Some 7) (Some 0))"
    by (simp add: stale_db_def scenario_defs query_defs)
  have u: "driver_id (ex_delivery Assigned (Some 7) (Some 0)) = Some 7"
    by (simp add: ex_delivery_def)
  have p: "status (ex_delivery Assigned (Some 7) (Some 0)) \<noteq> Pending"
    by (simp add: ex_delivery_def)
  have k: "delivery_pk (ex_delivery Assigned (Some 7) (Some 0)) = 1"
    by (simp add: ex_delivery_def)
  from idempotent_assignment[OF o d u p, of ex_rt 5 3 0] k show ?thesis by simp
qed

text \<open>
  The claim as stated fails on the returned \<open>driver_id\<close>. On a confirmed order with one
  driver in reach, the first call returns delivery 1 and driver 7 and leaves the delivery
  assigned to driver 7; the second call returns success and delivery 1 without a driver.
\<close>

theorem idempotent_assignment_counterexample:
  "res_delivery_id (fst (process_delivery_assignment ex_rt 0 1 3 0 fresh_db)) = Some 1
   \<and> res_driver_id (fst (process_delivery_assignment ex_rt 0 1 3 0 fresh_db)) = Some 7
   \<and> map_option driver_id
       (get_delivery_by_order (snd (process_delivery_assignment ex_rt 0 1 3 0 fresh_db)) 1)
       = Some (Some 7)
   \<and> map_option status
       (get_delivery_by_order (snd (process_delivery_assignment ex_rt 0 1 3 0 fresh_db)) 1)
       = Some Assigned
   \<and> success (fst (process_delivery_assignment ex_rt 0 1 3 0
                     (snd (process_delivery_assignment ex_rt 0 1 3 0 fresh_db))))
   \<and> res_delivery_id (fst (process_delivery_assignment ex_rt 0 1 3 0
                     (snd (process_delivery_assignment ex_rt 0 1 3 0 fresh_db)))) = Some 1
   \<and> res_driver_id (fst (process_delivery_assignment ex_rt 0 1 3 0
                     (snd (process_delivery_assignment ex_rt 0 1 3 0 fresh_db)))) = None"
proof -
  have first: "process_delivery_assignment ex_rt 0 1 3 0 fresh_db =
    (\<lparr>success = True, res_delivery_id = Some 1, res_driver_id = Some 7,
      already_assigned = None, res_error = None, retry = None\<rparr>,
     \<lparr>orders = [ex_order\<lparr>order_status := Order_confirmed\<rparr>],
      deliveries = [(ex_delivery Assigned (Some 7) (Some 0))\<lparr>distance_km := Some 0\<rparr>],
      availabilities = [ex_availability 7 True True (Some 1) (Some 1) (45 / 10)],
      outbox = [Driver_new_delivery 7 1, Driver_new_delivery 7 1,
                Customer_order_status 1 ''driver_assigned'', Email_driver_new_delivery 1]\<rparr>)"
    by (simp add: fresh_db_def scenario_defs service_defs query_defs matcher_defs)
  show ?thesis
    unfolding first
    by (simp add: scenario_defs process_delivery_assignment_def query_defs)
qed

text \<open>The two failure branches of \<open>process_delivery_assignment\<close>, and what they produce.\<close>

lemma process_no_drivers_online:
  assumes "get_order s oid = Some ord"
    and "\<nexists>d. get_delivery_by_order s oid = Some d \<and> driver_id d \<noteq> None \<and> status d \<noteq> Pending"
    and "online_drivers s = []"
  shows "process_delivery_assignment rt now oid max_retries current_retry s =
           (if max_retries \<le> current_retry
            then (failure ''No drivers online'' False,
                  mark_for_manual_assignment oid ''No drivers online'' s)
            else (failure ''No drivers online'' True, s))"
proof -
  have "\<not> (case get_delivery_by_order s oid of None \<Rightarrow> False
           | Some d \<Rightarrow> driver_id d \<noteq> None \<and> status d \<noteq> Pending)"
    using assms(2) by (auto split: option.splits)
  with assms(1,3) show ?thesis
    by (simp add: process_delivery_assignment_def Let_def)
qed

lemma process_all_drivers_busy:
  assumes "get_order s oid = Some ord"
    and "\<nexists>d. get_delivery_by_order s oid = Some d \<and> driver_id d \<noteq> None \<and> status d \<noteq> Pending"
    and "online_drivers s \<noteq> []"
    and "assign_delivery_to_driver rt now oid s = (Inr None, s)"
  shows "process_delivery_assignment rt now oid max_retries current_retry s =
           (if max_retries \<le> current_retry
            then (failure ''All drivers busy'' False,
                  mark_for_manual_assignment oid ''All drivers busy'' s)
            else (failure ''All drivers busy'' True, s))"
proof -
  have "\<not> (case get_delivery_by_order s oid of None \<Rightarrow> False
           | Some d \<Rightarrow> driver_id d \<noteq> None \<and> status d \<noteq> Pending)"
    using assms(2) by (auto split: option.splits)
  with assms(1,3,4) show ?thesis
    by (simp add: process_delivery_assignment_def Let_def)
qed

lemma escalation_outcome:
  fixes max_retries current_retry :: int
  assumes "(r, s') =
             (if max_retries \<le> current_retry
              then (failure reason False, mark_for_manual_assignment oid reason s)
              else (failure reason True, s))"
  shows "success r = False \<and> res_error r = Some reason
       \<and> (if current_retry < max_retries
          then retry r = Some True \<and> s' = s
          else retry r = Some False
             \<and> (\<exists>d. get_delivery_by_order s' oid = Some d \<and> status d = Pending
                   \<and> driver_notes d = manual_note reason))"
proof (cases "current_retry < max_retries")
  case True
  then have "\<not> max_retries \<le> current_retry" by simp
  with assms have "r = failure reason True" and "s' = s" by simp_all
  with True show ?thesis by (simp add: failure_def)
next
  case False
  then have "max_retries \<le> current_retry" by simp
  with assms have "r = failure reason False" and "s' = mark_for_manual_assignment oid reason s"
    by simp_all
  with False show ?thesis
    using mark_for_manual_assignment_marks[of oid reason s] by (simp add: failure_def)
qed

text \<open>
  Claim C6 (retry escalation). When the order exists and is not already assigned, and the
  attempt fails because no verified active driver is online or because
  \<open>assign_delivery_to_driver\<close> finds no one, the result is a failure. Below the budget
  (\<open>current_retry < max_retries\<close>) it is retryable and nothing is written. From the
  budget on it is not retryable, and the order's delivery is pending with the
  manual-assignment note in \<open>driver_notes\<close>.
\<close>

theorem retry_escalation:
  assumes "get_order s oid = Some ord"
    and "\<nexists>d. get_delivery_by_order s oid = Some d \<and> driver_id d \<noteq> None \<and> status d \<noteq> Pending"
    and "online_drivers s = [] \<or> fst (assign_delivery_to_driver rt now oid s) = Inr None"
    and "process_delivery_assignment rt now oid max_retries current_retry s = (r, s')"
  shows "success r = False
       \<and> (\<exists>reason. (reason = ''No drivers online'' \<or> reason = ''All drivers busy'')
            \<and> res_error r = Some reason
            \<and> (if current_retry < max_retries
               then retry r = Some True \<and> s' = s
               else retry r = Some False
                  \<and> (\<exists>d. get_delivery_by_order s' oid = Some d \<and> status d = Pending
                        \<and> driver_notes d = manual_note reason)))"
proof (cases "online_drivers s = []")
  case True
  have "(r, s') =
          (if max_retries \<le> current_retry
           then (failure ''No drivers online'' False,
                 mark_for_manual_assignment oid ''No drivers online'' s)
           else (failure ''No drivers online'' True, s))"
    using process_no_drivers_online[OF assms(1,2) True] assms(4) by metis
  from escalation_outcome[OF this] show ?thesis by blast
next
  case False
  with assms(3) have "fst (assign_delivery_to_driver rt now oid s) = Inr None" by simp
  then obtain s1 where a: "assign_delivery_to_driver rt now oid s = (Inr None, s1)"
    by (cases "assign_delivery_to_driver rt now oid s") auto
  then have "s1 = s" by (rule assign_delivery_to_driver_none)
  with a have a': "assign_delivery_to_driver rt now oid s = (Inr None, s)" by simp
  have "(r, s') =
          (if max_retries \<le> current_retry
           then (failure ''All drivers busy'' False,
                 mark_for_manual_assignment oid ''All drivers busy'' s)
           else (failure ''All drivers busy'' True, s))"
    using process_all_drivers_busy[OF assms(1,2) False a'] assms(4) by metis
  from escalation_outcome[OF this] show ?thesis by blast
qed

text \<open>
  No driver online and the default budget of 3: the first attempt is retryable and writes
  nothing; the attempt with \<open>current_retry = 3\<close> is final and leaves the marker.
\<close>

theorem retry_escalation_witness:
  "process_delivery_assignment ex_rt 0 1 3 0 no_drivers_db =
     (failure ''No drivers online'' True, no_drivers_db)
   \<and> fst (process_delivery_assignment ex_rt 0 1 3 3 no_drivers_db) =
       failure ''No drivers online'' False
   \<and> map_option status
       (get_delivery_by_order (snd (process_delivery_assignment ex_rt 0 1 3 3 no_drivers_db)) 1)
       = Some Pending
   \<and> map_option driver_notes
       (get_delivery_by_order (snd (process_delivery_assignment ex_rt 0 1 3 3 no_drivers_db)) 1)
       = Some ''No drivers online - requires manual assignment''"
proof -
  let ?marked = "mark_for_manual_assignment 1 ''No drivers online'' no_drivers_db"
  have o: "get_order no_drivers_db 1 = Some ex_order"
    by (simp add: no_drivers_db_def scenario_defs query_defs)
  have e: "\<nexists>d. get_delivery_by_order no_drivers_db 1 = Some d \<and> driver_id d \<noteq> None
             \<and> status d \<noteq> Pending"
    by (simp add: no_drivers_db_def scenario_defs query_defs)
  have none: "online_drivers no_drivers_db = []"
    by (simp add: no_drivers_db_def scenario_defs online_drivers_def)
  then have n: "online_drivers no_drivers_db = []
             \<or> fst (assign_delivery_to_driver ex_rt 0 1 no_drivers_db) = Inr None"
    by simp
  have early: "process_delivery_assignment ex_rt 0 1 3 0 no_drivers_db =
                 (failure ''No drivers online'' True, no_drivers_db)"
    using process_no_drivers_online[OF o e none, of ex_rt 0 3 0] by simp
  have final: "process_delivery_assignment ex_rt 0 1 3 3 no_drivers_db =
                 (failure ''No drivers online'' False, ?marked)"
    using process_no_drivers_online[OF o e none, of ex_rt 0 3 3] by simp
  have "\<exists>reason. (reason = ''No drivers online'' \<or> reason = ''All drivers busy'')
            \<and> res_error (failure ''No drivers online'' False) = Some reason
            \<and> (if (3 :: int) < 3
               then retry (failure ''No drivers online'' False) = Some True
                  \<and> ?marked = no_drivers_db
               else retry (failure ''No drivers online'' False) = Some False
                  \<and> (\<exists>d. get_delivery_by_order ?marked 1 = Some d \<and> status d = Pending
                        \<and> driver_notes d = manual_note reason))"
    using retry_escalation[OF o e n final] by (rule conjunct2)
  then obtain d where "get_delivery_by_order ?marked 1 = Some d" and "status d = Pending"
    and "driver_notes d = manual_note ''No drivers online''"
    by (auto simp: failure_def)
  with early final show ?thesis by (simp add: manual_note_def)
qed

section \<open>Driver availability\<close>

text \<open>What each operation does to the \<open>DriverAvailability\<close> table.\<close>

lemma availabilities_release_previous_driver:
  "availabilities (release_previous_driver d s) =
     map (\<lambda>a. if Some (user_id (driver a)) = driver_id d then a\<lparr>is_available := True\<rparr> else a)
       (availabilities s)"
proof (cases "driver_id d")
  case None
  then show ?thesis by (simp add: release_previous_driver_def)
next
  case (Some u)
  show ?thesis
  proof (cases "get_availability s u")
    case None
    then have "map (\<lambda>a. if user_id (driver a) = u then a\<lparr>is_available := True\<rparr> else a)
                 (availabilities s) = availabilities s"
      unfolding get_availability_def by (rule map_replace_absent)
    with None Some show ?thesis by (simp add: release_previous_driver_def)
  next
    case (Some a)
    with \<open>driver_id d = Some u\<close> show ?thesis
      by (simp add: release_previous_driver_def update_availability_def)
  qed
qed

lemma notify_driver_new_delivery_keeps_availabilities:
  "notify_driver_new_delivery d s = (r, s') \<Longrightarrow> availabilities s' = availabilities s"
  using tables_notify_driver_new_delivery(3)[of d s] by simp

lemma availabilities_assign_delivery_to_driver:
  "availabilities (snd (assign_delivery_to_driver rt now oid s)) = availabilities s"
  by (auto simp: assign_delivery_to_driver_def Let_def
      split: option.splits sum.splits list.splits prod.splits
      dest!: notify_driver_new_delivery_keeps_availabilities)

lemma availabilities_reassign_delivery:
  "get_delivery s did = Some d \<Longrightarrow>
   availabilities (snd (reassign_delivery rt now did s)) =
     availabilities (release_previous_driver d s)"
  by (auto simp: reassign_delivery_def Let_def
      split: option.splits sum.splits list.splits prod.splits
      dest!: notify_driver_new_delivery_keeps_availabilities)

text \<open>
  The rows of a table before and after a release of the driver \<open>prev\<close>: each row is
  as it was or has \<open>is_available\<close> set to true; the rows of other drivers are as they
  were; the row of \<open>prev\<close>, when online, has \<open>is_available\<close> set to true.
\<close>

lemma list_all2_release:
  "list_all2
     (\<lambda>a a'. (a' = a \<or> a' = a\<lparr>is_available := True\<rparr>)
            \<and> (Some (user_id (driver a)) \<noteq> prev \<longrightarrow> a' = a)
            \<and> (Some (user_id (driver a)) = prev \<and> is_online a \<longrightarrow>
                 a' = a\<lparr>is_available := True\<rparr>))
     as
     (map (\<lambda>a. if Some (user_id (driver a)) = prev then a\<lparr>is_available := True\<rparr> else a) as)"
  by (induction as) simp_all

lemma accept_delivery_object:
  "status (fst (accept_delivery now d s)) = Accepted
 \<and> accepted_at (fst (accept_delivery now d s)) = Some now"
  by (simp add: accept_delivery_def Let_def split: option.splits)

lemma accept_delivery_absent:
  "get_delivery s (delivery_pk d) = None \<Longrightarrow>
   snd (accept_delivery now d s) = (Some DatabaseError, s)"
  by (simp add: accept_delivery_def Let_def)

lemma accept_delivery_present:
  assumes "get_delivery s (delivery_pk d) = Some row"
  shows "fst (snd (accept_delivery now d s)) = None"
    and "deliveries (snd (snd (accept_delivery now d s))) =
           map (\<lambda>r. if delivery_pk r = delivery_pk d
                    then r\<lparr>status := Accepted, accepted_at := Some now\<rparr> else r)
             (deliveries s)"
    and "availabilities (snd (snd (accept_delivery now d s))) =
           map (\<lambda>a. if Some (user_id (driver a)) = driver_id d
                    then a\<lparr>is_available := False\<rparr> else a)
             (availabilities s)"
proof -
  show "fst (snd (accept_delivery now d s)) = None"
    using assms by (simp add: accept_delivery_def Let_def)
  show "deliveries (snd (snd (accept_delivery now d s))) =
           map (\<lambda>r. if delivery_pk r = delivery_pk d
                    then r\<lparr>status := Accepted, accepted_at := Some now\<rparr> else r)
             (deliveries s)"
    using assms
    by (simp add: accept_delivery_def Let_def update_delivery_def split: option.splits)
  show "availabilities (snd (snd (accept_delivery now d s))) =
           map (\<lambda>a. if Some (user_id (driver a)) = driver_id d
                    then a\<lparr>is_available := False\<rparr> else a)
             (availabilities s)"
  proof (cases "driver_id d")
    case None
    with assms show ?thesis by (simp add: accept_delivery_def Let_def)
  next
    case (Some u)
    show ?thesis
    proof (cases "get_availability s u")
      case None
      then have "map (\<lambda>a. if user_id (driver a) = u then a\<lparr>is_available := False\<rparr> else a)
                   (availabilities s) = availabilities s"
        unfolding get_availability_def by (rule map_replace_absent)
      with None Some assms show ?thesis
        by (simp add: accept_delivery_def Let_def get_availability_def)
    next
      case avail: (Some a)
      with Some assms show ?thesis
        by (simp add: accept_delivery_def Let_def update_availability_def get_availability_def)
    qed
  qed
qed

text \<open>
  Claim C7 (assignment does not claim the driver), as amended.
  \<open>assign_delivery_to_driver\<close> leaves every \<open>DriverAvailability\<close> row as it was.
  \<open>reassign_delivery\<close> sets no \<open>is_available\<close> to false: every row is as it was or has
  the flag set to true, the rows of drivers other than the delivery's previous driver are as
  they were, and the previous driver's row, when that driver is online, has the flag set to
  true. So the chosen driver's flag is unchanged unless the chosen driver is the previous
  one. \<open>accept_delivery\<close> sets the object's status to accepted and its \<open>accepted_at\<close> to
  the current time; when the delivery's row is in the table it writes both to that row and
  sets \<open>is_available\<close> to false on the row of the delivery's driver and on no other;
  when the row is not in the table it raises \<open>DatabaseError\<close> and writes nothing.
\<close>

theorem assignment_does_not_claim_driver:
  "availabilities (snd (assign_delivery_to_driver rt now oid s)) = availabilities s
 \<and> (get_delivery s did = Some d \<longrightarrow>
      list_all2
        (\<lambda>a a'. (a' = a \<or> a' = a\<lparr>is_available := True\<rparr>)
               \<and> (Some (user_id (driver a)) \<noteq> driver_id d \<longrightarrow> a' = a)
               \<and> (Some (user_id (driver a)) = driver_id d \<and> is_online a \<longrightarrow>
                    a' = a\<lparr>is_available := True\<rparr>))
        (availabilities s)
        (availabilities (snd (reassign_delivery rt now did s))))
 \<and> status (fst (accept_delivery now acc s)) = Accepted
 \<and> accepted_at (fst (accept_delivery now acc s)) = Some now
 \<and> (case get_delivery s (delivery_pk acc) of
       None \<Rightarrow> snd (accept_delivery now acc s) = (Some DatabaseError, s)
     | Some _ \<Rightarrow>
         fst (snd (accept_delivery now acc s)) = None
       \<and> deliveries (snd (snd (accept_delivery now acc s))) =
           map (\<lambda>r. if delivery_pk r = delivery_pk acc
                    then r\<lparr>status := Accepted, accepted_at := Some now\<rparr> else r)
             (deliveries s)
       \<and> availabilities (snd (snd (accept_delivery now acc s))) =
           map (\<lambda>a. if Some (user_id (driver a)) = driver_id acc
                    then a\<lparr>is_available := False\<rparr> else a)
             (availabilities s))"
proof (intro conjI impI)
  show "availabilities (snd (assign_delivery_to_driver rt now oid s)) = availabilities s"
    by (rule availabilities_assign_delivery_to_driver)
next
  assume "get_delivery s did = Some d"
  then have "availabilities (snd (reassign_delivery rt now did s)) =
      map (\<lambda>a. if Some (user_id (driver a)) = driver_id d then a\<lparr>is_available := True\<rparr> else a)
        (availabilities s)"
    by (simp add: availabilities_reassign_delivery availabilities_release_previous_driver)
  then show "list_all2
        (\<lambda>a a'. (a' = a \<or> a' = a\<lparr>is_available := True\<rparr>)
               \<and> (Some (user_id (driver a)) \<noteq> driver_id d \<longrightarrow> a' = a)
               \<and> (Some (user_id (driver a)) = driver_id d \<and> is_online a \<longrightarrow>
                    a' = a\<lparr>is_available := True\<rparr>))
        (availabilities s)
        (availabilities (snd (reassign_delivery rt now did s)))"
    using list_all2_release[of "driver_id d" "availabilities s"] by simp
next
  show "status (fst (accept_delivery now acc s)) = Accepted"
    using accept_delivery_object by blast
next
  show "accepted_at (fst (accept_delivery now acc s)) = Some now"
    using accept_delivery_object by blast
next
  show "case get_delivery s (delivery_pk acc) of
       None \<Rightarrow> snd (accept_delivery now acc s) = (Some DatabaseError, s)
     | Some _ \<Rightarrow>
         fst (snd (accept_delivery now acc s)) = None
       \<and> deliveries (snd (snd (accept_delivery now acc s))) =
           map (\<lambda>r. if delivery_pk r = delivery_pk acc
                    then r\<lparr>status := Accepted, accepted_at := Some now\<rparr> else r)
             (deliveries s)
       \<and> availabilities (snd (snd (accept_delivery now acc s))) =
           map (\<lambda>a. if Some (user_id (driver a)) = driver_id acc
                    then a\<lparr>is_available := False\<rparr> else a)
             (availabilities s)"
  proof (cases "get_delivery s (delivery_pk acc)")
    case None
    then show ?thesis by (simp add: accept_delivery_absent)
  next
    case (Some row)
    from accept_delivery_present[OF this] Some show ?thesis by simp
  qed
qed

text \<open>
  The scenario of the specification: the order is assigned to driver 7, who stays
  available, and the driver's flag turns false when the assigned delivery is accepted.
  A delivery that driver 7 did not accept goes to driver 8, whose flag stays as it was,
  and driver 7, who is online, is available again. Accepting a delivery whose row is gone
  raises and leaves driver 7 available.
\<close>

theorem assignment_does_not_claim_driver_witness:
  "map_option driver_id (get_delivery_by_order
       (snd (assign_delivery_to_driver ex_rt 9 1 fresh_db)) 1) = Some (Some 7)
   \<and> availabilities (snd (assign_delivery_to_driver ex_rt 9 1 fresh_db)) =
       [ex_availability 7 True True (Some 1) (Some 1) (45 / 10)]
   \<and> map_option driver_id (get_delivery (snd (reassign_delivery ex_rt 400 1 handover_db)) 1)
       = Some (Some 8)
   \<and> availabilities (snd (reassign_delivery ex_rt 400 1 handover_db)) =
       [ex_availability 7 True True (Some 1) (Some 1) 4,
        ex_availability 8 True True (Some 1) (Some 1) 5]
   \<and> accept_delivery 9 (ex_delivery Assigned (Some 7) (Some 0)) assigned_db =
       ((ex_delivery Accepted (Some 7) (Some 0))\<lparr>accepted_at := Some 9\<rparr>, None,
        ex_db [ex_order] [(ex_delivery Accepted (Some 7) (Some 0))\<lparr>accepted_at := Some 9\<rparr>]
          [ex_availability 7 True False (Some 1) (Some 1) 4])
   \<and> snd (accept_delivery 9 (ex_delivery Assigned (Some 7) (Some 0)) fresh_db) =
       (Some DatabaseError, fresh_db)"
proof -
  let ?d = "ex_delivery Assigned (Some 7) (Some 0)"
  note assign = assignment_does_not_claim_driver[where rt = ex_rt and now = 9 and oid = 1
      and s = fresh_db and did = 1 and d = ?d and acc = ?d]
  note reassign = assignment_does_not_claim_driver[where rt = ex_rt and now = 400 and oid = 1
      and s = handover_db and did = 1 and d = ?d and acc = ?d]
  note accept = assignment_does_not_claim_driver[where rt = ex_rt and now = 9 and oid = 1
      and s = assigned_db and did = 1 and d = ?d and acc = ?d]
  have k: "delivery_pk ?d = 1"
    by (simp add: ex_delivery_def)
  have gone: "get_delivery fresh_db 1 = None"
    by (simp add: fresh_db_def scenario_defs query_defs)
  have held: "get_delivery handover_db 1 = Some ?d"
    by (simp add: handover_db_def scenario_defs query_defs)
  have here: "get_delivery assigned_db 1 = Some ?d"
    by (simp add: assigned_db_def scenario_defs query_defs)
  have a1: "map_option driver_id (get_delivery_by_order
       (snd (assign_delivery_to_driver ex_rt 9 1 fresh_db)) 1) = Some (Some 7)"
    by (simp add: fresh_db_def scenario_defs service_defs query_defs matcher_defs)
  have a2: "availabilities (snd (assign_delivery_to_driver ex_rt 9 1 fresh_db)) =
       [ex_availability 7 True True (Some 1) (Some 1) (45 / 10)]"
    using assign[THEN conjunct1] by (simp add: fresh_db_def ex_db_def)
  have r1: "map_option driver_id (get_delivery (snd (reassign_delivery ex_rt 400 1 handover_db)) 1)
       = Some (Some 8)"
    by (simp add: handover_db_def scenario_defs service_defs query_defs matcher_defs)
  have "list_all2
        (\<lambda>a a'. (a' = a \<or> a' = a\<lparr>is_available := True\<rparr>)
               \<and> (Some (user_id (driver a)) \<noteq> driver_id ?d \<longrightarrow> a' = a)
               \<and> (Some (user_id (driver a)) = driver_id ?d \<and> is_online a \<longrightarrow>
                    a' = a\<lparr>is_available := True\<rparr>))
        (availabilities handover_db)
        (availabilities (snd (reassign_delivery ex_rt 400 1 handover_db)))"
    using reassign[THEN conjunct2, THEN conjunct1] held by blast
  then have r2: "availabilities (snd (reassign_delivery ex_rt 400 1 handover_db)) =
       [ex_availability 7 True True (Some 1) (Some 1) 4,
        ex_availability 8 True True (Some 1) (Some 1) 5]"
    by (auto simp: handover_db_def scenario_defs list_all2_Cons1)
  have c0: "fst (accept_delivery 9 ?d assigned_db) =
              (ex_delivery Accepted (Some 7) (Some 0))\<lparr>accepted_at := Some 9\<rparr>"
    by (simp add: accept_delivery_def Let_def ex_delivery_def split: option.splits)
  have c1: "fst (snd (accept_delivery 9 ?d assigned_db)) = None"
    and c2: "deliveries (snd (snd (accept_delivery 9 ?d assigned_db))) =
           [(ex_delivery Accepted (Some 7) (Some 0))\<lparr>accepted_at := Some 9\<rparr>]"
    and c3: "availabilities (snd (snd (accept_delivery 9 ?d assigned_db))) =
           [ex_availability 7 True False (Some 1) (Some 1) 4]"
    using accept[THEN conjunct2, THEN conjunct2, THEN conjunct2, THEN conjunct2] here
    by (simp_all add: k assigned_db_def scenario_defs)
  have c4: "orders (snd (snd (accept_delivery 9 ?d assigned_db))) = [ex_order]"
    and c5: "outbox (snd (snd (accept_delivery 9 ?d assigned_db))) = []"
    by (simp_all add: accept_delivery_def Let_def assigned_db_def scenario_defs query_defs)
  have c: "accept_delivery 9 ?d assigned_db =
       ((ex_delivery Accepted (Some 7) (Some 0))\<lparr>accepted_at := Some 9\<rparr>, None,
        ex_db [ex_order] [(ex_delivery Accepted (Some 7) (Some 0))\<lparr>accepted_at := Some 9\<rparr>]
          [ex_availability 7 True False (Some 1) (Some 1) 4])"
    using c0 c1 c2 c3 c4 c5 by (simp add: prod_eq_iff ex_db_def)
  have g: "snd (accept_delivery 9 ?d fresh_db) = (Some DatabaseError, fresh_db)"
    using assign[THEN conjunct2, THEN conjunct2, THEN conjunct2, THEN conjunct2] gone
    by (simp add: k)
  show ?thesis by (intro conjI a1 a2 r1 r2 c g)
qed

text \<open>
  The claim as stated fails for \<open>reassign_delivery\<close> when the chosen driver is the
  previous one. Driver 7 holds the assigned delivery and is marked unavailable; the
  reassignment chooses driver 7 again and has set the driver's flag to true.
\<close>

theorem assignment_does_not_claim_driver_counterexample:
  "map_option is_available (get_availability stale_db 7) = Some False
   \<and> fst (reassign_delivery ex_rt 400 1 stale_db) =
       Inr (Some (ex_delivery Assigned (Some 7) (Some 400)))
   \<and> map_option is_available
       (get_availability (snd (reassign_delivery ex_rt 400 1 stale_db)) 7) = Some True"
  by (simp add: stale_db_def scenario_defs service_defs query_defs matcher_defs)

text \<open>
  On completion (\<open>mark_delivered\<close>) and on rejection (\<open>reject_delivery\<close>) the driver
  is made available again only while online: the row of an offline driver keeps its
  \<open>is_available\<close>.
\<close>

lemma restore_driver_availability_offline:
  assumes "get_availability s u = Some a" and "\<not> is_online a"
  shows "map is_available (availabilities (restore_driver_availability u s)) =
           map is_available (availabilities s)"
  using assms by (simp add: restore_driver_availability_def update_availability_def o_def)

lemma mark_delivered_offline_driver:
  assumes "driver_id d = Some u" and "get_availability s u = Some a" and "\<not> is_online a"
  shows "map is_available (availabilities (snd (snd (mark_delivered now d s)))) =
           map is_available (availabilities s)"
proof (cases "get_delivery s (delivery_pk d)")
  case None
  then show ?thesis by (simp add: mark_delivered_def Let_def)
next
  case row: (Some r)
  let ?s1 = "update_delivery (delivery_pk d)
               (\<lambda>r. r\<lparr>status := Delivered, actual_delivery_time := Some now\<rparr>) s"
  show ?thesis
  proof (cases "get_order ?s1 (order_id d)")
    case None
    with row show ?thesis by (simp add: mark_delivered_def Let_def)
  next
    case (Some ord)
    let ?s5 = "send (Vendor_order_update (order_id d))
                 (send (Customer_order_status (order_id d) ''delivered'')
                    (send (Email_order_delivered (order_id d))
                       (update_order (order_id d)
                          (\<lambda>r. r\<lparr>order_status := Order_delivered, delivered_at := Some now\<rparr>)
                          ?s1)))"
    have "get_availability ?s5 u = Some a"
      using assms(2) by (simp add: get_availability_def)
    from restore_driver_availability_offline[OF this assms(3)] assms(1) row Some
    show ?thesis by (simp add: mark_delivered_def Let_def)
  qed
qed

lemma reject_delivery_offline_driver:
  assumes "get_availability s (user_id request_user) = Some a" and "\<not> is_online a"
  shows "availabilities (snd (reject_delivery request_user did s)) = availabilities s"
  using assms
  by (simp add: reject_delivery_def Let_def get_availability_def split: option.splits)

text \<open>
  Claim C3 (availability restored only while online). The claim asks that a released
  driver becomes available again only if still online. \<open>reassign_delivery\<close> does not
  look at \<open>is_online\<close>: for every delivery with a driver, the driver's row after the
  call is the row before with \<open>is_available\<close> set to true, online or not.
\<close>

theorem reassign_restores_offline_driver:
  assumes "get_delivery s did = Some d"
    and "driver_id d = Some u"
    and "get_availability s u = Some a"
  shows "get_availability (snd (reassign_delivery rt now did s)) u =
           Some (a\<lparr>is_available := True\<rparr>)"
proof -
  have "availabilities (snd (reassign_delivery rt now did s)) =
          map (\<lambda>r. if user_id (driver r) = u then r\<lparr>is_available := True\<rparr> else r)
            (availabilities s)"
    using assms(1,2)
    by (simp add: availabilities_reassign_delivery availabilities_release_previous_driver)
  then show ?thesis
    using assms(3) find_map_update[of "\<lambda>r. user_id (driver r) = u" "availabilities s" a
        "\<lambda>r. r\<lparr>is_available := True\<rparr>"]
    by (simp add: get_availability_def)
qed

text \<open>
  Driver 7 went offline while holding the assigned delivery. After the reassignment the
  delivery is pending without a driver, and driver 7 is offline and marked available.
\<close>

theorem reassign_restores_offline_driver_witness:
  "get_availability offline_db 7 = Some (ex_availability 7 False False (Some 1) (Some 1) 4)
   \<and> fst (reassign_delivery ex_rt 400 1 offline_db) = Inr None
   \<and> get_availability (snd (reassign_delivery ex_rt 400 1 offline_db)) 7 =
       Some (ex_availability 7 False True (Some 1) (Some 1) 4)"
proof -
  have d: "get_delivery offline_db 1 = Some (ex_delivery Assigned (Some 7) (Some 0))"
    by (simp add: offline_db_def scenario_defs query_defs)
  have u: "driver_id (ex_delivery Assigned (Some 7) (Some 0)) = Some 7"
    by (simp add: ex_delivery_def)
  have a: "get_availability offline_db 7 =
             Some (ex_availability 7 False False (Some 1) (Some 1) 4)"
    by (simp add: offline_db_def scenario_defs query_defs)
  have r: "fst (reassign_delivery ex_rt 400 1 offline_db) = Inr None"
    by (simp add: offline_db_def scenario_defs service_defs query_defs matcher_defs)
  from reassign_restores_offline_driver[OF d u a, of ex_rt 400] a r
  show ?thesis by (simp add: ex_availability_def)
qed

section \<open>State machine\<close>


lemma deliveries_restore_driver_availability [simp]:
  "deliveries (restore_driver_availability u s) = deliveries s"
  by (simp add: restore_driver_availability_def Let_def split: option.splits)


lemma get_order_update_delivery [simp]:
  "get_order (update_delivery i f s) oid = get_order s oid"
  by (simp add: get_order_def)




section \<open>Timeout\<close>

text \<open>
  Claim C8 (timeout escalation). The claim asks that a delivery which is still assigned
  when at least \<open>timeout\<close> seconds have passed since \<open>assigned_at\<close> gets one
  reassignment attempt, after its driver has been told. The task does that only for a
  delivery without a driver: its result and state are then those of one call of
  \<open>reassign_delivery\<close>, followed by the dispatch of the new driver's notification when
  a driver was found. When the delivery has a driver, the task raises \<open>ImportError\<close>
  with the state unchanged: no driver is told and \<open>reassign_delivery\<close> is not called.
  In every other case the state is unchanged, and the task reports that it did nothing
  or fails on a missing \<open>assigned_at\<close>.
\<close>

theorem timeout_escalation:
  assumes "get_delivery s did = Some d"
  shows "(if status d = Assigned \<and> (\<exists>t. assigned_at d = Some t \<and> timeout \<le> now - t)
          then (if driver_id d = None
                then check_assignment_timeout rt timeout now did s =
                       after_reassign (reassign_delivery rt now did s)
                else check_assignment_timeout rt timeout now did s = (Inl ImportError, s))
          else snd (check_assignment_timeout rt timeout now did s) = s
             \<and> (fst (check_assignment_timeout rt timeout now did s) = Inr (No_action (status d))
                \<or> fst (check_assignment_timeout rt timeout now did s) = Inl TypeError))"
  using assms by (auto simp: check_assignment_timeout_def split: option.splits)

text \<open>
  A delivery assigned at time 0 to driver 7, with the default timeout: at time 299 nothing
  happens; at time 300 the task raises and the delivery stays with driver 7. The same
  delivery without a driver is reassigned at time 300 by one call of
  \<open>reassign_delivery\<close>, and the new assignment is announced.
\<close>

theorem timeout_escalation_witness:
  "check_assignment_timeout ex_rt default_timeout 299 1 stale_db =
     (Inr (No_action Assigned), stale_db)
   \<and> check_assignment_timeout ex_rt default_timeout 300 1 stale_db =
       (Inl ImportError, stale_db)
   \<and> deliveries stale_db = [ex_delivery Assigned (Some 7) (Some 0)]
   \<and> check_assignment_timeout ex_rt default_timeout 300 1 orphan_db =
       after_reassign (reassign_delivery ex_rt 300 1 orphan_db)
   \<and> fst (check_assignment_timeout ex_rt default_timeout 300 1 orphan_db) = Inr Reassigned
   \<and> deliveries (snd (check_assignment_timeout ex_rt default_timeout 300 1 orphan_db)) =
       [ex_delivery Assigned (Some 7) (Some 300)]
   \<and> outbox (snd (check_assignment_timeout ex_rt default_timeout 300 1 orphan_db)) =
       [Driver_new_delivery 7 1, Task_dispatched ''notify_driver_new_delivery'' 1]"
proof -
  let ?d = "ex_delivery Assigned (Some 7) (Some 0)"
  let ?o = "ex_delivery Assigned None (Some 0)"
  have d: "get_delivery stale_db 1 = Some ?d"
    by (simp add: stale_db_def scenario_defs query_defs)
  have o: "get_delivery orphan_db 1 = Some ?o"
    by (simp add: orphan_db_def scenario_defs query_defs)
  have early: "snd (check_assignment_timeout ex_rt default_timeout 299 1 stale_db) = stale_db
      \<and> (fst (check_assignment_timeout ex_rt default_timeout 299 1 stale_db)
           = Inr (No_action (status ?d))
         \<or> fst (check_assignment_timeout ex_rt default_timeout 299 1 stale_db) = Inl TypeError)"
    using timeout_escalation[OF d, where timeout = default_timeout and now = 299 and rt = ex_rt]
    by (simp add: ex_delivery_def default_timeout_def)
  have "fst (check_assignment_timeout ex_rt default_timeout 299 1 stale_db) =
          Inr (No_action Assigned)"
    using d by (simp add: check_assignment_timeout_def ex_delivery_def default_timeout_def)
  with early have e: "check_assignment_timeout ex_rt default_timeout 299 1 stale_db =
             (Inr (No_action Assigned), stale_db)"
    by (simp add: prod_eq_iff)
  have due: "check_assignment_timeout ex_rt default_timeout 300 1 stale_db =
               (Inl ImportError, stale_db)"
    using timeout_escalation[OF d, where timeout = default_timeout and now = 300 and rt = ex_rt]
    by (simp add: ex_delivery_def default_timeout_def)
  have rows: "deliveries stale_db = [ex_delivery Assigned (Some 7) (Some 0)]"
    by (simp add: stale_db_def ex_db_def)
  have free: "check_assignment_timeout ex_rt default_timeout 300 1 orphan_db =
               after_reassign (reassign_delivery ex_rt 300 1 orphan_db)"
    using timeout_escalation[OF o, where timeout = default_timeout and now = 300 and rt = ex_rt]
    by (simp add: ex_delivery_def default_timeout_def)
  have run: "after_reassign (reassign_delivery ex_rt 300 1 orphan_db) =
          (Inr Reassigned,
           \<lparr>orders = [ex_order],
            deliveries = [ex_delivery Assigned (Some 7) (Some 300)],
            availabilities = [ex_availability 7 True True (Some 1) (Some 1) 4],
            outbox = [Driver_new_delivery 7 1,
                      Task_dispatched ''notify_driver_new_delivery'' 1]\<rparr>)"
    by (simp add: orphan_db_def scenario_defs service_defs query_defs matcher_defs
        after_reassign_def)
  have f1: "fst (check_assignment_timeout ex_rt default_timeout 300 1 orphan_db) = Inr Reassigned"
    and f2: "deliveries (snd (check_assignment_timeout ex_rt default_timeout 300 1 orphan_db)) =
       [ex_delivery Assigned (Some 7) (Some 300)]"
    and f3: "outbox (snd (check_assignment_timeout ex_rt default_timeout 300 1 orphan_db)) =
       [Driver_new_delivery 7 1, Task_dispatched ''notify_driver_new_delivery'' 1]"
    unfolding free run by simp_all
  show ?thesis by (intro conjI e due rows free f1 f2 f3)
qed

section \<open>Task fallback\<close>

text \<open>
  Claim C9 (three-tier fallback). When the queue is enabled and the submission does not
  raise, \<open>run_task_safe\<close> returns true with nothing else done. Otherwise, when the thread
  starts, it returns true. Otherwise it runs the fallback inline and returns whether that
  call came back without raising. So it returns false exactly when the submission, the
  thread start and the inline call have all failed.
\<close>

theorem run_task_safe_three_tiers:
  fixes delay :: "'s \<Rightarrow> ('e + 'q) \<times> 's"
    and start_thread :: "'s \<Rightarrow> ('e + unit) \<times> 's"
    and sync_func :: "'s \<Rightarrow> ('e + 'r) \<times> 's"
  shows
  "(let run = run_task_safe enable_celery delay start_thread sync_func s;
        queued = (enable_celery \<and> \<not> isl (fst (delay s)));
        s1 = (if enable_celery then snd (delay s) else s);
        started = \<not> isl (fst (start_thread s1));
        s2 = snd (start_thread s1);
        ran = \<not> isl (fst (sync_func s2))
    in (queued \<longrightarrow> run = (True, s1))
     \<and> (\<not> queued \<and> started \<longrightarrow> run = (True, s2))
     \<and> (\<not> queued \<and> \<not> started \<longrightarrow> run = (ran, snd (sync_func s2)))
     \<and> (fst run = False \<longleftrightarrow> \<not> queued \<and> \<not> started \<and> \<not> ran))"
  by (auto simp: run_task_safe_def Let_def isl_def split: prod.splits sum.splits)

text \<open>
  The four ways through the tiers, on a log of the operations tried: queued; queue down
  and thread started; queue disabled, no thread, inline call done; everything failed.
\<close>

theorem run_task_safe_three_tiers_witness:
  "run_task_safe True (ex_step True ''delay'') (ex_step True ''thread'') (ex_step True ''sync'') []
     = (True, [''delay''])
   \<and> run_task_safe True (ex_step False ''delay'') (ex_step True ''thread'')
       (ex_step True ''sync'') [] = (True, [''delay'', ''thread''])
   \<and> run_task_safe False (ex_step True ''delay'') (ex_step False ''thread'')
       (ex_step True ''sync'') [] = (True, [''thread'', ''sync''])
   \<and> run_task_safe True (ex_step False ''delay'') (ex_step False ''thread'')
       (ex_step False ''sync'') [] = (False, [''delay'', ''thread'', ''sync''])"
proof -
  have "run_task_safe True (ex_step True ''delay'') (ex_step True ''thread'')
          (ex_step True ''sync'') [] = (True, [''delay''])"
    using run_task_safe_three_tiers[of True "ex_step True ''delay''" "ex_step True ''thread''"
        "ex_step True ''sync''" "[]"]
    by (simp add: ex_step_def Let_def)
  moreover have "run_task_safe True (ex_step False ''delay'') (ex_step True ''thread'')
          (ex_step True ''sync'') [] = (True, [''delay'', ''thread''])"
    using run_task_safe_three_tiers[of True "ex_step False ''delay''" "ex_step True ''thread''"
        "ex_step True ''sync''" "[]"]
    by (simp add: ex_step_def Let_def)
  moreover have "run_task_safe False (ex_step True ''delay'') (ex_step False ''thread'')
          (ex_step True ''sync'') [] = (True, [''thread'', ''sync''])"
    using run_task_safe_three_tiers[of False "ex_step True ''delay''" "ex_step False ''thread''"
        "ex_step True ''sync''" "[]"]
    by (simp add: ex_step_def Let_def)
  moreover have "run_task_safe True (ex_step False ''delay'') (ex_step False ''thread'')
          (ex_step False ''sync'') [] = (False, [''delay'', ''thread'', ''sync''])"
    using run_task_safe_three_tiers[of True "ex_step False ''delay''" "ex_step False ''thread''"
        "ex_step False ''sync''" "[]"]
    by (simp add: ex_step_def Let_def prod_eq_iff)
  ultimately show ?thesis by simp
qed

end
